theory Spec2Isabelle
  imports Main "HOL-Library.Finite_Map"
begin

section \<open>The free store, nodes and the queue object\<close>

text \<open>
  The model follows \<^verbatim>\<open>src/include/threadsafe_queue.hpp\<close>. One thread runs one member
  function to completion, so both mutexes are free when a call starts and when it ends
  and are not part of the state. Nodes live in an explicit free store, because
  \<^verbatim>\<open>tail_\<close> is a raw pointer into the chain owned through \<^verbatim>\<open>head_\<close> and the
  emptiness test compares the two addresses.

  A pointer is an optional address, \<open>None\<close> being \<^verbatim>\<open>nullptr\<close>. The members
  \<^verbatim>\<open>head_\<close>, \<^verbatim>\<open>tail_\<close> and \<^verbatim>\<open>next\<close> are called \<open>head\<close>, \<open>tail\<close> and
  \<open>nxt\<close> here (a trailing underscore and the word \<open>next\<close> are not available as
  names).
\<close>

type_synonym addr = nat

type_synonym ptr = "addr option"

record 'a node_t =
  data :: "'a option"
  nxt :: ptr

text \<open>
  \<open>store\<close> holds the nodes allocated by \<^verbatim>\<open>std::make_unique<node_t>\<close>, \<open>brk\<close> is the
  address the next successful allocation returns, and \<open>notified\<close> counts the calls of
  \<^verbatim>\<open>data_cond_.notify_one()\<close>.
\<close>

record 'a threadsafe_queue =
  store :: "(addr, 'a node_t) fmap"
  brk :: addr
  head :: ptr
  tail :: ptr
  notified :: nat

text \<open>
  The caller's output location of \<^verbatim>\<open>try_pop(T&)\<close>. It holds a payload until line
  134 assigns the node handle returned by \<^verbatim>\<open>pop_head\<close> to it, so it can hold either.
\<close>

datatype 'a slot = Payload 'a | Node_handle ptr

section \<open>Outcomes of a call\<close>

text \<open>
  A call returns a result and a state, leaves by a C++ exception with the state it
  leaves behind, runs into undefined behaviour (no state is left to observe), or blocks
  in \<^verbatim>\<open>data_cond_.wait\<close> on a predicate that no other thread makes true.
\<close>

datatype exn = bad_alloc

datatype fault = null_dereference | dangling_pointer

datatype ('r, 's) outcome = Return 'r 's | Throw exn 's | Fault fault | Blocked

fun and_then :: "('r, 's) outcome \<Rightarrow> ('r \<Rightarrow> 's \<Rightarrow> ('t, 's) outcome) \<Rightarrow> ('t, 's) outcome" where
  "and_then (Return r s) k = k r s"
| "and_then (Throw e s) k = Throw e s"
| "and_then (Fault f) k = Fault f"
| "and_then Blocked k = Blocked"

section \<open>Pointers and ownership\<close>

text \<open>\<^verbatim>\<open>p->\<close>: the node a pointer refers to; a null or dangling pointer is a fault.\<close>

definition deref :: "ptr \<Rightarrow> 'a threadsafe_queue \<Rightarrow> fault + addr \<times> 'a node_t" where
  "deref p q =
     (case p of
        None \<Rightarrow> Inl null_dereference
      | Some a \<Rightarrow>
          (case fmlookup (store q) a of
             None \<Rightarrow> Inl dangling_pointer
           | Some n \<Rightarrow> Inr (a, n)))"

text \<open>
  \<^verbatim>\<open>delete\<close> of a node: \<^verbatim>\<open>~node_t\<close> destroys the member \<^verbatim>\<open>next\<close>, which deletes the
  node it owns, and so on down the chain. Deleting an address that is not allocated is
  a fault (\<open>None\<close>).
\<close>

function delete_node :: "addr \<Rightarrow> (addr, 'a node_t) fmap \<Rightarrow> (addr, 'a node_t) fmap option" where
  "delete_node a s =
     (case fmlookup s a of
        None \<Rightarrow> None
      | Some n \<Rightarrow>
          (case nxt n of
             None \<Rightarrow> Some (fmdrop a s)
           | Some b \<Rightarrow> delete_node b (fmdrop a s)))"
  by pat_completeness auto
termination
proof (relation "measure (\<lambda>(a, s). fcard (fmdom s))")
  show "wf (measure (\<lambda>(a, s::(addr, 'a node_t) fmap). fcard (fmdom s)))"
    by simp
next
  fix a :: addr and s :: "(addr, 'a node_t) fmap" and n b
  assume "fmlookup s a = Some n"
  then have "a |\<in>| fmdom s"
    by (simp add: fmdomI)
  then have "fcard (fmdom s |-| {|a|}) < fcard (fmdom s)"
    by (rule fcard_fminus1_less)
  then show "((b, fmdrop a s), (a, s)) \<in> measure (\<lambda>(a, s). fcard (fmdom s))"
    by simp
qed

declare delete_node.simps [simp del]

text \<open>What a \<^verbatim>\<open>std::unique_ptr<node_t>\<close> does to the node it owns when it lets go of it.\<close>

definition destroy :: "ptr \<Rightarrow> 'a threadsafe_queue \<Rightarrow> (unit, 'a threadsafe_queue) outcome" where
  "destroy p q =
     (case p of
        None \<Rightarrow> Return () q
      | Some a \<Rightarrow>
          (case delete_node a (store q) of
             None \<Rightarrow> Fault dangling_pointer
           | Some s \<Rightarrow> Return () (q\<lparr>store := s\<rparr>)))"

text \<open>
  \<^verbatim>\<open>std::make_shared<T>\<close> and \<^verbatim>\<open>std::make_unique<node_t>\<close>. Whether the allocation
  succeeds is the environment's choice, passed as a flag; a failed one throws
  \<^verbatim>\<open>std::bad_alloc\<close> and changes nothing. A payload holder is represented by the
  payload itself.
\<close>

definition make_shared :: "bool \<Rightarrow> 'a \<Rightarrow> 'a threadsafe_queue \<Rightarrow> ('a option, 'a threadsafe_queue) outcome" where
  "make_shared ok v q = (if ok then Return (Some v) q else Throw bad_alloc q)"

definition make_unique :: "bool \<Rightarrow> 'a threadsafe_queue \<Rightarrow> (ptr, 'a threadsafe_queue) outcome" where
  "make_unique ok q =
     (if ok
      then Return (Some (brk q))
             (q\<lparr>store := fmupd (brk q) \<lparr>data = None, nxt = None\<rparr> (store q), brk := Suc (brk q)\<rparr>)
      else Throw bad_alloc q)"

text \<open>\<^verbatim>\<open>p->data = d\<close>.\<close>

definition assign_data :: "ptr \<Rightarrow> 'a option \<Rightarrow> 'a threadsafe_queue \<Rightarrow> (unit, 'a threadsafe_queue) outcome" where
  "assign_data p d q =
     (case deref p q of
        Inl f \<Rightarrow> Fault f
      | Inr (a, n) \<Rightarrow> Return () (q\<lparr>store := fmupd a (n\<lparr>data := d\<rparr>) (store q)\<rparr>))"

text \<open>
  \<^verbatim>\<open>p->next = std::move(node)\<close>: the member takes the new pointer, then deletes what it
  owned before.
\<close>

definition assign_next :: "ptr \<Rightarrow> ptr \<Rightarrow> 'a threadsafe_queue \<Rightarrow> (unit, 'a threadsafe_queue) outcome" where
  "assign_next p node q =
     (case deref p q of
        Inl f \<Rightarrow> Fault f
      | Inr (a, n) \<Rightarrow> destroy (nxt n) (q\<lparr>store := fmupd a (n\<lparr>nxt := node\<rparr>) (store q)\<rparr>))"

text \<open>\<^verbatim>\<open>head_ = std::move(...)\<close>: likewise for the member \<^verbatim>\<open>head_\<close>.\<close>

definition assign_head :: "ptr \<Rightarrow> 'a threadsafe_queue \<Rightarrow> (unit, 'a threadsafe_queue) outcome" where
  "assign_head p q = destroy (head q) (q\<lparr>head := p\<rparr>)"

section \<open>The member functions\<close>

text \<open>
  The constructor (lines 40 to 43), started on the storage of a queue object whose
  members are not initialised yet.
\<close>

definition raw_storage :: "'a threadsafe_queue" where
  "raw_storage = \<lparr>store = fmempty, brk = 0, head = None, tail = None, notified = 0\<rparr>"

definition threadsafe_queue_ctor :: "bool \<Rightarrow> (unit, 'a threadsafe_queue) outcome" where
  "threadsafe_queue_ctor unique_ok =
     and_then (make_unique unique_ok raw_storage)
       (\<lambda>p q. Return () (q\<lparr>head := p, tail := p\<rparr>))"

text \<open>\<^verbatim>\<open>push\<close> (lines 45 to 60).\<close>

definition push :: "bool \<Rightarrow> bool \<Rightarrow> 'a \<Rightarrow> 'a threadsafe_queue \<Rightarrow> (unit, 'a threadsafe_queue) outcome" where
  "push shared_ok unique_ok v q =
     and_then (make_shared shared_ok v q) (\<lambda>d q1.
     and_then (make_unique unique_ok q1) (\<lambda>node q2.
     and_then (assign_data (tail q2) d q2) (\<lambda>_ q3.
     and_then (assign_next (tail q3) node q3) (\<lambda>_ q4.
     Return () (q4\<lparr>tail := node, notified := Suc (notified q4)\<rparr>)))))"

text \<open>\<^verbatim>\<open>get_tail\<close> (lines 62 to 67).\<close>

definition get_tail :: "'a threadsafe_queue \<Rightarrow> ptr" where
  "get_tail q = tail q"

text \<open>
  \<^verbatim>\<open>pop_head\<close> (lines 69 to 75). Line 72 moves \<^verbatim>\<open>head_\<close> into \<^verbatim>\<open>old_head\<close>, which
  leaves \<^verbatim>\<open>head_\<close> null (a moved-from \<^verbatim>\<open>unique_ptr\<close> is null). Line 73 then reads
  \<^verbatim>\<open>head_->next\<close>, through \<^verbatim>\<open>head_\<close> and not through \<^verbatim>\<open>old_head\<close>, moves it out
  of that node and into \<^verbatim>\<open>head_\<close>; line 74 returns \<^verbatim>\<open>old_head\<close>.
\<close>

definition pop_head :: "'a threadsafe_queue \<Rightarrow> (ptr, 'a threadsafe_queue) outcome" where
  "pop_head q =
     (let old_head = head q;
          q1 = q\<lparr>head := None\<rparr>
      in case deref (head q1) q1 of
           Inl f \<Rightarrow> Fault f
         | Inr (h, n) \<Rightarrow>
             and_then (assign_head (nxt n) (q1\<lparr>store := fmupd h (n\<lparr>nxt := None\<rparr>) (store q1)\<rparr>))
               (\<lambda>_ q2. Return old_head q2))"

text \<open>
  \<^verbatim>\<open>wait_for_data\<close> (lines 77 to 86). With no other thread to push, the predicate
  either holds at once or never.
\<close>

definition wait_for_data :: "'a threadsafe_queue \<Rightarrow> (unit, 'a threadsafe_queue) outcome" where
  "wait_for_data q = (if head q \<noteq> get_tail q then Return () q else Blocked)"

text \<open>\<^verbatim>\<open>wait_and_pop_head()\<close> (lines 88 to 93).\<close>

definition wait_and_pop_head :: "'a threadsafe_queue \<Rightarrow> (ptr, 'a threadsafe_queue) outcome" where
  "wait_and_pop_head q = and_then (wait_for_data q) (\<lambda>_ q1. pop_head q1)"

text \<open>
  \<^verbatim>\<open>wait_and_pop_head(T&)\<close> (lines 95 to 101) and its caller \<^verbatim>\<open>wait_and_pop(T&)\<close>
  (lines 109 to 113) have no definition here. Line 100 returns the
  \<^verbatim>\<open>std::unique_ptr<node_t>\<close> that \<^verbatim>\<open>pop_head\<close> yields from a function returning
  \<^verbatim>\<open>bool\<close>; the conversion of \<^verbatim>\<open>unique_ptr\<close> to \<^verbatim>\<open>bool\<close> is explicit and a return
  statement does not apply it, so the member is ill-formed for every \<^verbatim>\<open>T\<close>: no program
  can call it, and it has no behaviour at run time to model.
\<close>

text \<open>
  \<^verbatim>\<open>p->data\<close> on the temporary handle \<^verbatim>\<open>p\<close> a detach helper returned (lines 106 and
  123): the payload pointer is copied out of the node, then the temporary is destroyed
  and its node with it.
\<close>

definition take_data :: "ptr \<Rightarrow> 'a threadsafe_queue \<Rightarrow> ('a option, 'a threadsafe_queue) outcome" where
  "take_data p q =
     (case deref p q of
        Inl f \<Rightarrow> Fault f
      | Inr (a, n) \<Rightarrow> and_then (destroy p q) (\<lambda>_ q1. Return (data n) q1))"

text \<open>\<^verbatim>\<open>wait_and_pop()\<close> (lines 103 to 107).\<close>

definition wait_and_pop :: "'a threadsafe_queue \<Rightarrow> ('a option, 'a threadsafe_queue) outcome" where
  "wait_and_pop q = and_then (wait_and_pop_head q) take_data"

text \<open>\<^verbatim>\<open>try_pop()\<close> (lines 115 to 124); \<open>None\<close> is the null \<^verbatim>\<open>shared_ptr\<close>.\<close>

definition try_pop :: "'a threadsafe_queue \<Rightarrow> ('a option, 'a threadsafe_queue) outcome" where
  "try_pop q =
     (if head q = get_tail q then Return None q
      else and_then (pop_head q) take_data)"

text \<open>
  \<^verbatim>\<open>try_pop(T&)\<close> (lines 126 to 136). Line 134 assigns the handle returned by
  \<^verbatim>\<open>pop_head\<close> to the output location, which becomes its owner.
\<close>

definition try_pop_out :: "'a slot \<Rightarrow> 'a threadsafe_queue \<Rightarrow> (bool \<times> 'a slot, 'a threadsafe_queue) outcome" where
  "try_pop_out val q =
     (if head q = get_tail q then Return (False, val) q
      else and_then (pop_head q) (\<lambda>old_head q1. Return (True, Node_handle old_head) q1))"

text \<open>\<^verbatim>\<open>empty\<close> (lines 138 to 143).\<close>

definition empty :: "'a threadsafe_queue \<Rightarrow> (bool, 'a threadsafe_queue) outcome" where
  "empty q = Return (head q = get_tail q) q"

section \<open>The state invariant\<close>

text \<open>
  \<^verbatim>\<open>head_\<close> points to an allocated node (the list has at least one node), \<^verbatim>\<open>tail_\<close>
  points to an allocated node that carries no payload and owns no successor, and every
  allocated address lies below the next one to be handed out.
\<close>

definition queue_inv :: "'a threadsafe_queue \<Rightarrow> bool" where
  "queue_inv q =
     (case head q of
        None \<Rightarrow> False
      | Some h \<Rightarrow>
          (case tail q of
             None \<Rightarrow> False
           | Some t \<Rightarrow>
               h |\<in>| fmdom (store q)
               \<and> (case fmlookup (store q) t of
                    None \<Rightarrow> False
                  | Some n \<Rightarrow> data n = None \<and> nxt n = None)
               \<and> fmpred (\<lambda>a n. a < brk q) (store q)))"

section \<open>Example states\<close>

text \<open>
  \<open>queue_0\<close> is the queue right after construction and \<open>queue_1\<close> the queue after
  \<^verbatim>\<open>push(7)\<close>. The lemmas \<open>ctor_builds_queue_0\<close> and \<open>push_builds_queue_1\<close> show
  that the member functions build them.
\<close>

definition queue_0 :: "nat threadsafe_queue" where
  "queue_0 =
     \<lparr>store = fmupd 0 \<lparr>data = None, nxt = None\<rparr> fmempty,
      brk = 1, head = Some 0, tail = Some 0, notified = 0\<rparr>"

definition queue_1 :: "nat threadsafe_queue" where
  "queue_1 =
     \<lparr>store = fmupd 0 \<lparr>data = Some 7, nxt = Some 1\<rparr>
                (fmupd 1 \<lparr>data = None, nxt = None\<rparr> (store queue_0)),
      brk = 2, head = Some 0, tail = Some 1, notified = 1\<rparr>"

section \<open>Basic facts\<close>

lemmas op_defs = push_def make_shared_def make_unique_def assign_data_def assign_next_def
  deref_def destroy_def get_tail_def

lemma ctor_builds_queue_0: "threadsafe_queue_ctor True = Return () queue_0"
  by (simp add: threadsafe_queue_ctor_def make_unique_def raw_storage_def queue_0_def)

lemma push_builds_queue_1: "push True True 7 queue_0 = Return () queue_1"
  by (simp add: op_defs queue_0_def queue_1_def)

text \<open>
  The detach helper never gets past line 73: after line 72 \<^verbatim>\<open>head_\<close> is null, whatever
  the queue held.
\<close>

lemma pop_head_null_deref: "pop_head q = Fault null_dereference"
  by (simp add: pop_head_def deref_def Let_def)

text \<open>
  So on a non-empty queue no pop gets as far as its result. The non-blocking pop returns
  on an empty queue only, reporting absence; the blocking pop never returns: on an empty
  queue it waits, on a non-empty one it faults.
\<close>

lemma try_pop_nonempty: "head q \<noteq> tail q \<Longrightarrow> try_pop q = Fault null_dereference"
  by (simp add: try_pop_def get_tail_def pop_head_null_deref)

lemma try_pop_out_nonempty:
  "head q \<noteq> tail q \<Longrightarrow> try_pop_out val q = Fault null_dereference"
  by (simp add: try_pop_out_def get_tail_def pop_head_null_deref)

lemma wait_and_pop_nonempty: "head q \<noteq> tail q \<Longrightarrow> wait_and_pop q = Fault null_dereference"
  by (simp add: wait_and_pop_def wait_and_pop_head_def wait_for_data_def get_tail_def
      pop_head_null_deref)

lemma wait_and_pop_empty: "head q = tail q \<Longrightarrow> wait_and_pop q = Blocked"
  by (simp add: wait_and_pop_def wait_and_pop_head_def wait_for_data_def get_tail_def)

lemma wait_and_pop_follows_try_pop: "head q \<noteq> tail q \<Longrightarrow> wait_and_pop q = try_pop q"
  by (simp add: try_pop_nonempty wait_and_pop_nonempty)

lemma try_pop_returns_on_empty_only:
  "try_pop q = Return r q' \<Longrightarrow> head q = tail q \<and> r = None \<and> q' = q"
  by (cases "head q = tail q") (simp_all add: try_pop_def get_tail_def pop_head_null_deref)

lemma try_pop_out_returns_on_empty_only:
  "try_pop_out val q = Return r q' \<Longrightarrow> head q = tail q \<and> r = (False, val) \<and> q' = q"
  by (cases "head q = tail q") (simp_all add: try_pop_out_def get_tail_def pop_head_null_deref)

lemma wait_and_pop_never_returns: "wait_and_pop q \<noteq> Return r q'"
  by (cases "head q = tail q") (simp_all add: wait_and_pop_empty wait_and_pop_nonempty)

text \<open>A failed allocation in \<^verbatim>\<open>push\<close> leaves any state whatever as it was.\<close>

lemma push_bad_alloc:
  "\<not> (shared_ok \<and> unique_ok) \<Longrightarrow> push shared_ok unique_ok v q = Throw bad_alloc q"
  by (auto simp add: push_def make_shared_def make_unique_def)

subsection \<open>What holds of the invariant\<close>

lemma ctor_establishes_inv: "threadsafe_queue_ctor True = Return () q \<Longrightarrow> queue_inv q"
  by (auto simp add: threadsafe_queue_ctor_def make_unique_def raw_storage_def queue_inv_def fmpred_alt_def)

lemma inv_tail_node:
  assumes "queue_inv q" and "tail q = Some t"
  shows "fmlookup (store q) t = Some \<lparr>data = None, nxt = None\<rparr> \<and> brk q \<noteq> t"
proof -
  from assms obtain n where n: "fmlookup (store q) t = Some n" "data n = None" "nxt n = None"
    by (auto simp add: queue_inv_def fmpred_alt_def split: option.splits)
  then have "n = \<lparr>data = None, nxt = None\<rparr>"
    by (cases n) simp
  moreover from assms have "t |\<in>| fmdom (store q) \<Longrightarrow> t < brk q"
    by (auto simp add: queue_inv_def fmpred_alt_def split: option.splits)
  with n have "brk q \<noteq> t"
    by (auto simp add: fmdomI)
  ultimately show ?thesis
    using n by simp
qed

lemma push_from_inv:
  assumes "queue_inv q" and "tail q = Some t"
  shows "push shared_ok unique_ok v q =
     (if shared_ok \<and> unique_ok
      then Return ()
             (q\<lparr>store := fmupd t \<lparr>data = Some v, nxt = Some (brk q)\<rparr>
                           (fmupd (brk q) \<lparr>data = None, nxt = None\<rparr> (store q)),
                brk := Suc (brk q), tail := Some (brk q), notified := Suc (notified q)\<rparr>)
      else Throw bad_alloc q)"
  using inv_tail_node [OF assms] assms(2) by (simp add: op_defs)

lemma push_preserves_inv:
  assumes "queue_inv q"
  shows "\<exists>q'. queue_inv q' \<and>
     push shared_ok unique_ok v q = (if shared_ok \<and> unique_ok then Return () q' else Throw bad_alloc q')"
proof -
  from assms obtain h t where ht: "head q = Some h" "tail q = Some t"
    by (auto simp add: queue_inv_def fmpred_alt_def split: option.splits)
  let ?q' = "q\<lparr>store := fmupd t \<lparr>data = Some v, nxt = Some (brk q)\<rparr>
                           (fmupd (brk q) \<lparr>data = None, nxt = None\<rparr> (store q)),
                brk := Suc (brk q), tail := Some (brk q), notified := Suc (notified q)\<rparr>"
  from assms ht have below: "h |\<in>| fmdom (store q)" "\<forall>a|\<in>|fmdom (store q). a < brk q"
    by (auto simp add: queue_inv_def fmpred_alt_def split: option.splits)
  from inv_tail_node [OF assms ht(2)] have t: "t |\<in>| fmdom (store q)" "brk q \<noteq> t"
    by (auto simp add: fmdomI)
  with below have "t < brk q"
    by blast
  with below t ht have "queue_inv ?q'"
    by (auto simp add: queue_inv_def fmpred_alt_def less_Suc_eq)
  show ?thesis
  proof (cases "shared_ok \<and> unique_ok")
    case True
    with \<open>queue_inv ?q'\<close> push_from_inv [OF assms ht(2), of shared_ok unique_ok v]
    show ?thesis by auto
  next
    case False
    with assms push_from_inv [OF assms ht(2), of shared_ok unique_ok v]
    show ?thesis by auto
  qed
qed

lemma empty_keeps_state: "empty q = Return (head q = tail q) q"
  by (simp add: empty_def get_tail_def)

section \<open>The claims\<close>

text \<open>
  Claim C1 (the two shapes of \<^verbatim>\<open>try_pop\<close> either both report absence or both remove the
  front node and deliver its payload) fails on the one-element queue: both shapes go
  through \<^verbatim>\<open>pop_head\<close>, which dereferences the null \<^verbatim>\<open>head_\<close>, so neither delivers
  the payload 7.
\<close>

theorem try_pop_shapes_fault:
  "head queue_1 \<noteq> tail queue_1
   \<and> try_pop queue_1 = Fault null_dereference
   \<and> try_pop_out (Payload 0) queue_1 = Fault null_dereference"
  by (simp add: try_pop_def try_pop_out_def get_tail_def pop_head_null_deref queue_1_def)

text \<open>
  Claim C2 (on a non-empty queue \<^verbatim>\<open>pop_head\<close> advances \<^verbatim>\<open>head_\<close> by one link and
  yields the detached node, with no null or moved-from dereference) fails on the
  one-element queue: the helper reads \<^verbatim>\<open>head_->next\<close> after \<^verbatim>\<open>head_\<close> was moved from.
\<close>

theorem pop_head_faults_on_one_element:
  "head queue_1 \<noteq> tail queue_1 \<and> pop_head queue_1 = Fault null_dereference"
  by (simp add: pop_head_def deref_def Let_def queue_1_def)

text \<open>
  Claim C4 (after \<^verbatim>\<open>push(1)\<close>, \<^verbatim>\<open>push(2)\<close>, \<^verbatim>\<open>push(3)\<close> on a new queue, \<^verbatim>\<open>try_pop\<close>
  returns 1, 2, 3 and then absent) fails at the first \<^verbatim>\<open>try_pop\<close>, which does not
  return.
\<close>

theorem fifo_scenario_faults:
  "and_then (and_then (and_then (and_then (threadsafe_queue_ctor True)
       (\<lambda>_. push True True (1::nat))) (\<lambda>_. push True True 2)) (\<lambda>_. push True True 3))
       (\<lambda>_. try_pop) = Fault null_dereference"
  by (simp add: threadsafe_queue_ctor_def raw_storage_def op_defs try_pop_def pop_head_null_deref)

text \<open>
  Claim C5 (on a non-empty queue \<^verbatim>\<open>wait_and_pop\<close>, in both shapes, returns the payload
  \<^verbatim>\<open>try_pop\<close> would return and leaves the same state) fails on the one-element queue:
  the wait is over at once, and then \<^verbatim>\<open>wait_and_pop()\<close> returns no payload, as
  \<^verbatim>\<open>try_pop()\<close> returns none; the shape with an output location cannot be called.
\<close>

theorem wait_and_pop_shapes_fault:
  "head queue_1 \<noteq> tail queue_1
   \<and> wait_for_data queue_1 = Return () queue_1
   \<and> wait_and_pop queue_1 = Fault null_dereference
   \<and> try_pop queue_1 = Fault null_dereference"
  by (simp add: wait_and_pop_def wait_and_pop_head_def wait_for_data_def try_pop_def
      get_tail_def pop_head_null_deref queue_1_def)

text \<open>
  Claim C6 (the invariant holds after construction and every operation preserves it)
  fails for the pops: the invariant holds after construction and after a push, but a pop
  started on the one-element queue leaves \<^verbatim>\<open>head_\<close> null at line 72, where the
  invariant no longer holds, and then reaches no state at all.
\<close>

theorem invariant_lost_in_pop:
  "queue_inv queue_0 \<and> queue_inv queue_1
   \<and> \<not> queue_inv (queue_1\<lparr>head := None\<rparr>)
   \<and> try_pop queue_1 = Fault null_dereference
   \<and> try_pop_out (Payload 0) queue_1 = Fault null_dereference
   \<and> wait_and_pop queue_1 = Fault null_dereference"
  by (simp add: queue_inv_def fmpred_alt_def try_pop_def try_pop_out_def wait_and_pop_def
      wait_and_pop_head_def wait_for_data_def get_tail_def pop_head_null_deref
      queue_0_def queue_1_def)

text \<open>
  Claim C7: on an empty queue (\<^verbatim>\<open>head_\<close> equal to \<^verbatim>\<open>tail_\<close>) both shapes of
  \<^verbatim>\<open>try_pop\<close> report absence, the null result and \<^verbatim>\<open>false\<close> with the output location
  untouched, they return normally, and the whole state is unchanged.
\<close>

theorem try_pop_empty_absent:
  "head q = tail q \<Longrightarrow> try_pop q = Return None q \<and> try_pop_out val q = Return (False, val) q"
  by (simp add: try_pop_def try_pop_out_def get_tail_def)

text \<open>Claim C7 at the newly constructed queue.\<close>

theorem try_pop_empty_absent_witness:
  "head queue_0 = tail queue_0 \<and> try_pop queue_0 = Return None queue_0
   \<and> try_pop_out (Payload 3) queue_0 = Return (False, Payload 3) queue_0"
proof -
  have e: "head queue_0 = tail queue_0"
    by (simp add: queue_0_def)
  show ?thesis
    using e try_pop_empty_absent [OF e, of "Payload 3"] by simp
qed

text \<open>
  Claim C8 (\<^verbatim>\<open>empty()\<close> is true on a new queue, false after one push, and true again
  after that value is popped) fails at its last step: the first two answers are as
  claimed, but the pop does not return, so the third call of \<^verbatim>\<open>empty()\<close> is never
  reached.
\<close>

theorem empty_after_pop_unreachable:
  "and_then (threadsafe_queue_ctor True) (\<lambda>_. empty) = Return True queue_0
   \<and> and_then (and_then (threadsafe_queue_ctor True) (\<lambda>_. push True True 7)) (\<lambda>_. empty)
       = Return False queue_1
   \<and> and_then (and_then (and_then (threadsafe_queue_ctor True) (\<lambda>_. push True True (7::nat)))
        (\<lambda>_. try_pop)) (\<lambda>_. empty) = Fault null_dereference"
  by (simp add: ctor_builds_queue_0 push_builds_queue_1 empty_def try_pop_def get_tail_def
      pop_head_null_deref) (simp add: queue_0_def queue_1_def)

text \<open>
  Claim C9: \<^verbatim>\<open>push\<close> is atomic with respect to allocation failure. On a queue that
  satisfies the invariant, if \<^verbatim>\<open>make_shared\<close> or \<^verbatim>\<open>make_unique\<close> fails, the call
  leaves by \<^verbatim>\<open>bad_alloc\<close> with the state exactly as it was; otherwise it returns with
  the payload stored in the old tail node, the new placeholder linked behind it,
  \<^verbatim>\<open>tail_\<close> advanced to the placeholder and one notification sent.
\<close>

theorem push_alloc_atomic:
  assumes "queue_inv q" and "tail q = Some t"
  shows "push shared_ok unique_ok v q =
     (if shared_ok \<and> unique_ok
      then Return ()
             (q\<lparr>store := fmupd t \<lparr>data = Some v, nxt = Some (brk q)\<rparr>
                           (fmupd (brk q) \<lparr>data = None, nxt = None\<rparr> (store q)),
                brk := Suc (brk q), tail := Some (brk q), notified := Suc (notified q)\<rparr>)
      else Throw bad_alloc q)"
  using assms by (rule push_from_inv)

text \<open>Claim C9 at the newly constructed queue: a full push and both failures.\<close>

theorem push_alloc_atomic_witness:
  "queue_inv queue_0 \<and> tail queue_0 = Some 0
   \<and> push True True 7 queue_0 = Return () queue_1
   \<and> push False True 7 queue_0 = Throw bad_alloc queue_0
   \<and> push True False 7 queue_0 = Throw bad_alloc queue_0"
proof -
  have i: "queue_inv queue_0"
    by (simp add: queue_inv_def fmpred_alt_def queue_0_def)
  have t: "tail queue_0 = Some 0"
    by (simp add: queue_0_def)
  show ?thesis
    using i t push_alloc_atomic [OF i t, of True True 7]
      push_alloc_atomic [OF i t, of False True 7] push_alloc_atomic [OF i t, of True False 7]
    by (simp add: queue_0_def queue_1_def)
qed

end
